theory Spec2Isabelle
  imports Complex_Main
begin

section \<open>The WebGL triangle script (main.js)\<close>

text \<open>
  main.js is one straight-line script and two helper functions, createShader and
  createProgram. Everything it does is a call into the browser: the DOM lookup of the
  canvas, the acquisition of the WebGL context, and calls on that context. The browser
  is not part of the repository, so it is a parameter of the model (record
  \<open>browser\<close>): it decides whether the canvas exists, whether a source compiles, whether
  a program links, the diagnostic texts, the attribute slots, and whether a null handle
  given where an object is required raises a TypeError (the current WebIDL binding) or
  is tolerated as a GL error (the original WebGL 1.0 binding).

  State is passed explicitly (record \<open>world\<close>): the console, the shader and program
  objects of the context, and the trace of every call made on the context, in order.
  A JavaScript exception is the \<open>Inl\<close> branch of the result; the state reached when it
  was thrown is kept, as an uncaught exception keeps what was logged before it.
\<close>

subsection \<open>Constants of the WebGL API\<close>

datatype shader_type = VERTEX_SHADER | FRAGMENT_SHADER

datatype status_pname = COMPILE_STATUS | LINK_STATUS

datatype buffer_target = ARRAY_BUFFER | ELEMENT_ARRAY_BUFFER

datatype buffer_usage = STREAM_DRAW | STATIC_DRAW | DYNAMIC_DRAW

datatype elem_type = BYTE | UNSIGNED_BYTE | SHORT | UNSIGNED_SHORT | FLOAT

datatype draw_mode =
  POINTS | LINES | LINE_LOOP | LINE_STRIP | TRIANGLES | TRIANGLE_STRIP | TRIANGLE_FAN

datatype clear_mask = COLOR_BUFFER_BIT | DEPTH_BUFFER_BIT | STENCIL_BUFFER_BIT

subsection \<open>Values\<close>

type_synonym handle = nat

text \<open>
  The numbers of the two arrays are -1, 0, 0.5 and 1: each is a binary32 value, so the
  conversion done by \<open>new Float32Array(...)\<close> leaves them as they are, and the typed
  array is the list of the same numbers under a constructor.
\<close>

datatype typed_array = Float32Array "real list"

record canvas =
  cv_width :: int
  cv_height :: int
  cv_webgl :: bool

datatype gl_context = WebGLRenderingContext canvas

fun gl_canvas :: "gl_context \<Rightarrow> canvas" where
  "gl_canvas (WebGLRenderingContext c) = c"

datatype js_error = TypeError string

subsection \<open>The context's objects and the trace of calls\<close>

record shader_obj =
  sh_type :: shader_type
  sh_source :: string
  sh_compiled :: bool
  sh_log :: string

record program_obj =
  pr_attached :: "handle list"
  pr_linked :: bool
  pr_log :: string

datatype gl_call =
    CreateShader shader_type
  | ShaderSource handle string
  | CompileShader handle
  | GetShaderParameter handle status_pname
  | GetShaderInfoLog handle
  | DeleteShader handle
  | CreateProgram
  | AttachShader handle "handle option"
  | LinkProgram handle
  | GetProgramParameter handle status_pname
  | GetProgramInfoLog handle
  | CreateBuffer
  | BindBuffer buffer_target handle
  | BufferData buffer_target typed_array buffer_usage
  | GetAttribLocation "handle option" string
  | VertexAttribPointer int int elem_type bool int int
  | EnableVertexAttribArray int
  | Viewport int int int int
  | ClearColor real real real real
  | Clear clear_mask
  | UseProgram "handle option"
  | DrawArrays draw_mode int int

record world =
  console :: "string list"
  next_handle :: handle
  shaders :: "handle \<rightharpoonup> shader_obj"
  programs :: "handle \<rightharpoonup> program_obj"
  calls :: "gl_call list"

definition init_world :: world where
  "init_world =
     \<lparr>console = [], next_handle = 1, shaders = Map.empty, programs = Map.empty,
      calls = []\<rparr>"

subsection \<open>The browser\<close>

record browser =
  document :: "string \<Rightarrow> canvas option"
  compileStatus :: "shader_type \<Rightarrow> string \<Rightarrow> bool"
  shaderInfoLog :: "shader_type \<Rightarrow> string \<Rightarrow> string"
  linkStatus :: "shader_obj list \<Rightarrow> bool"
  programInfoLog :: "shader_obj list \<Rightarrow> string"
  attribLocation :: "shader_obj list \<Rightarrow> string \<Rightarrow> int"
  nullHandleThrows :: bool

subsection \<open>Statements: state and exceptions\<close>

type_synonym 'a js = "world \<Rightarrow> (js_error + 'a) \<times> world"

definition js_return :: "'a \<Rightarrow> 'a js" where
  "js_return x = (\<lambda>w. (Inr x, w))"

definition js_throw :: "js_error \<Rightarrow> 'a js" where
  "js_throw e = (\<lambda>w. (Inl e, w))"

definition js_bind :: "'a js \<Rightarrow> ('a \<Rightarrow> 'b js) \<Rightarrow> 'b js" where
  "js_bind m f =
     (\<lambda>w. case m w of (Inl e, w') \<Rightarrow> (Inl e, w') | (Inr x, w') \<Rightarrow> f x w')"

text \<open>Reading a member of null raises a TypeError; of an object, it goes on.\<close>

definition deref :: "'o option \<Rightarrow> string \<Rightarrow> ('o \<Rightarrow> 'a js) \<Rightarrow> 'a js" where
  "deref obj member k =
     (case obj of None \<Rightarrow> js_throw (TypeError member) | Some x \<Rightarrow> k x)"

definition console_error :: "string \<Rightarrow> unit js" where
  "console_error msg = (\<lambda>w. (Inr (), w\<lparr>console := console w @ [msg]\<rparr>))"

definition document_getElementById :: "browser \<Rightarrow> string \<Rightarrow> canvas option js" where
  "document_getElementById b ident = js_return (document b ident)"

definition canvas_getContext :: "canvas \<Rightarrow> string \<Rightarrow> gl_context option js" where
  "canvas_getContext c kind =
     js_return (if kind = ''webgl'' \<and> cv_webgl c
                then Some (WebGLRenderingContext c) else None)"

subsection \<open>The methods of the context\<close>

definition traced :: "gl_call \<Rightarrow> world \<Rightarrow> world" where
  "traced c w = w\<lparr>calls := calls w @ [c]\<rparr>"

fun lookup_all :: "('k \<rightharpoonup> 'v) \<Rightarrow> 'k list \<Rightarrow> 'v list" where
  "lookup_all m [] = []"
| "lookup_all m (k # ks) =
     (case m k of None \<Rightarrow> lookup_all m ks | Some v \<Rightarrow> v # lookup_all m ks)"

text \<open>The shader objects attached to a program, in the order of attachment.\<close>

definition attached_objs :: "world \<Rightarrow> program_obj \<Rightarrow> shader_obj list" where
  "attached_objs w p = lookup_all (shaders w) (pr_attached p)"

text \<open>Creating an object succeeds and gives a fresh handle (the context is not lost).\<close>

definition gl_createShader :: "shader_type \<Rightarrow> handle js" where
  "gl_createShader ty =
     (\<lambda>w. (Inr (next_handle w),
            traced (CreateShader ty)
              (w\<lparr>next_handle := Suc (next_handle w),
                 shaders := (shaders w)(next_handle w \<mapsto>
                   \<lparr>sh_type = ty, sh_source = [], sh_compiled = False, sh_log = []\<rparr>)\<rparr>)))"

definition gl_shaderSource :: "handle \<Rightarrow> string \<Rightarrow> unit js" where
  "gl_shaderSource h src =
     (\<lambda>w. (Inr (),
            traced (ShaderSource h src)
              (case shaders w h of
                 None \<Rightarrow> w
               | Some obj \<Rightarrow> w\<lparr>shaders := (shaders w)(h \<mapsto> obj\<lparr>sh_source := src\<rparr>)\<rparr>)))"

definition gl_compileShader :: "browser \<Rightarrow> handle \<Rightarrow> unit js" where
  "gl_compileShader b h =
     (\<lambda>w. (Inr (),
            traced (CompileShader h)
              (case shaders w h of
                 None \<Rightarrow> w
               | Some obj \<Rightarrow>
                   w\<lparr>shaders := (shaders w)(h \<mapsto>
                       obj\<lparr>sh_compiled := compileStatus b (sh_type obj) (sh_source obj),
                           sh_log := shaderInfoLog b (sh_type obj) (sh_source obj)\<rparr>)\<rparr>)))"

definition gl_getShaderParameter :: "handle \<Rightarrow> status_pname \<Rightarrow> bool js" where
  "gl_getShaderParameter h pname =
     (\<lambda>w. (Inr (case shaders w h of
                  None \<Rightarrow> False
                | Some obj \<Rightarrow> pname = COMPILE_STATUS \<and> sh_compiled obj),
            traced (GetShaderParameter h pname) w))"

definition gl_getShaderInfoLog :: "handle \<Rightarrow> string js" where
  "gl_getShaderInfoLog h =
     (\<lambda>w. (Inr (case shaders w h of None \<Rightarrow> [] | Some obj \<Rightarrow> sh_log obj),
            traced (GetShaderInfoLog h) w))"

text \<open>
  A shader that is attached to no program is destroyed by deleteShader at once; main.js
  deletes only such shaders.
\<close>

definition gl_deleteShader :: "handle \<Rightarrow> unit js" where
  "gl_deleteShader h =
     (\<lambda>w. (Inr (), traced (DeleteShader h) (w\<lparr>shaders := (shaders w)(h := None)\<rparr>)))"

definition gl_createProgram :: "handle js" where
  "gl_createProgram =
     (\<lambda>w. (Inr (next_handle w),
            traced CreateProgram
              (w\<lparr>next_handle := Suc (next_handle w),
                 programs := (programs w)(next_handle w \<mapsto>
                   \<lparr>pr_attached = [], pr_linked = False, pr_log = []\<rparr>)\<rparr>)))"

text \<open>
  Attaching adds the shader to the program's list when both objects exist; otherwise the
  context flags a GL error and changes nothing.
\<close>

definition attach :: "handle \<Rightarrow> handle \<Rightarrow> world \<Rightarrow> world" where
  "attach p h w =
     (case programs w p of
        None \<Rightarrow> w
      | Some obj \<Rightarrow>
          (case shaders w h of
             None \<Rightarrow> w
           | Some _ \<Rightarrow>
               w\<lparr>programs := (programs w)(p \<mapsto>
                   obj\<lparr>pr_attached := pr_attached obj @ [h]\<rparr>)\<rparr>))"

text \<open>
  A null shader: the binding raises a TypeError before the context sees the call, or the
  context takes the call, flags a GL error and attaches nothing.
\<close>

definition gl_attachShader :: "browser \<Rightarrow> handle \<Rightarrow> handle option \<Rightarrow> unit js" where
  "gl_attachShader b p s =
     (case s of
        None \<Rightarrow>
          if nullHandleThrows b then js_throw (TypeError ''attachShader'')
          else (\<lambda>w. (Inr (), traced (AttachShader p None) w))
      | Some h \<Rightarrow> (\<lambda>w. (Inr (), traced (AttachShader p (Some h)) (attach p h w))))"

text \<open>Linking records the status and the diagnostic the browser gives for the attached shaders.\<close>

definition link :: "browser \<Rightarrow> handle \<Rightarrow> world \<Rightarrow> world" where
  "link b p w =
     (case programs w p of
        None \<Rightarrow> w
      | Some obj \<Rightarrow>
          w\<lparr>programs := (programs w)(p \<mapsto>
              obj\<lparr>pr_linked := linkStatus b (attached_objs w obj),
                  pr_log := programInfoLog b (attached_objs w obj)\<rparr>)\<rparr>)"

definition gl_linkProgram :: "browser \<Rightarrow> handle \<Rightarrow> unit js" where
  "gl_linkProgram b p = (\<lambda>w. (Inr (), traced (LinkProgram p) (link b p w)))"

definition gl_getProgramParameter :: "handle \<Rightarrow> status_pname \<Rightarrow> bool js" where
  "gl_getProgramParameter p pname =
     (\<lambda>w. (Inr (case programs w p of
                  None \<Rightarrow> False
                | Some obj \<Rightarrow> pname = LINK_STATUS \<and> pr_linked obj),
            traced (GetProgramParameter p pname) w))"

definition gl_getProgramInfoLog :: "handle \<Rightarrow> string js" where
  "gl_getProgramInfoLog p =
     (\<lambda>w. (Inr (case programs w p of None \<Rightarrow> [] | Some obj \<Rightarrow> pr_log obj),
            traced (GetProgramInfoLog p) w))"

definition gl_createBuffer :: "handle js" where
  "gl_createBuffer =
     (\<lambda>w. (Inr (next_handle w),
            traced CreateBuffer (w\<lparr>next_handle := Suc (next_handle w)\<rparr>)))"

definition gl_bindBuffer :: "buffer_target \<Rightarrow> handle \<Rightarrow> unit js" where
  "gl_bindBuffer target buf = (\<lambda>w. (Inr (), traced (BindBuffer target buf) w))"

definition gl_bufferData :: "buffer_target \<Rightarrow> typed_array \<Rightarrow> buffer_usage \<Rightarrow> unit js" where
  "gl_bufferData target data usage = (\<lambda>w. (Inr (), traced (BufferData target data usage) w))"

text \<open>
  The slot of a named attribute: -1 for a null program (where null is tolerated), for an
  unknown program and for a program that is not linked.
\<close>

definition attrib_slot :: "browser \<Rightarrow> world \<Rightarrow> handle option \<Rightarrow> string \<Rightarrow> int" where
  "attrib_slot b w program name =
     (case program of
        None \<Rightarrow> - 1
      | Some p \<Rightarrow>
          (case programs w p of
             None \<Rightarrow> - 1
           | Some obj \<Rightarrow>
               if pr_linked obj then attribLocation b (attached_objs w obj) name else - 1))"

definition gl_getAttribLocation :: "browser \<Rightarrow> handle option \<Rightarrow> string \<Rightarrow> int js" where
  "gl_getAttribLocation b program name =
     (if program = None \<and> nullHandleThrows b
      then js_throw (TypeError ''getAttribLocation'')
      else (\<lambda>w. (Inr (attrib_slot b w program name),
                  traced (GetAttribLocation program name) w)))"

definition gl_vertexAttribPointer ::
    "int \<Rightarrow> int \<Rightarrow> elem_type \<Rightarrow> bool \<Rightarrow> int \<Rightarrow> int \<Rightarrow> unit js" where
  "gl_vertexAttribPointer index sz ty normalized stride offset =
     (\<lambda>w. (Inr (), traced (VertexAttribPointer index sz ty normalized stride offset) w))"

definition gl_enableVertexAttribArray :: "int \<Rightarrow> unit js" where
  "gl_enableVertexAttribArray index = (\<lambda>w. (Inr (), traced (EnableVertexAttribArray index) w))"

definition gl_viewport :: "int \<Rightarrow> int \<Rightarrow> int \<Rightarrow> int \<Rightarrow> unit js" where
  "gl_viewport x y wd ht = (\<lambda>w. (Inr (), traced (Viewport x y wd ht) w))"

definition gl_clearColor :: "real \<Rightarrow> real \<Rightarrow> real \<Rightarrow> real \<Rightarrow> unit js" where
  "gl_clearColor r g bl a = (\<lambda>w. (Inr (), traced (ClearColor r g bl a) w))"

definition gl_clear :: "clear_mask \<Rightarrow> unit js" where
  "gl_clear bits = (\<lambda>w. (Inr (), traced (Clear bits) w))"

definition gl_useProgram :: "handle option \<Rightarrow> unit js" where
  "gl_useProgram program = (\<lambda>w. (Inr (), traced (UseProgram program) w))"

definition gl_drawArrays :: "draw_mode \<Rightarrow> int \<Rightarrow> int \<Rightarrow> unit js" where
  "gl_drawArrays mode first n = (\<lambda>w. (Inr (), traced (DrawArrays mode first n) w))"

subsection \<open>createShader and createProgram\<close>

definition createShader ::
    "browser \<Rightarrow> gl_context option \<Rightarrow> shader_type \<Rightarrow> string \<Rightarrow> handle option js" where
  "createShader b gl ty source =
     js_bind (deref gl ''createShader'' (\<lambda>_. gl_createShader ty)) (\<lambda>shader.
     js_bind (deref gl ''shaderSource'' (\<lambda>_. gl_shaderSource shader source)) (\<lambda>_.
     js_bind (deref gl ''compileShader'' (\<lambda>_. gl_compileShader b shader)) (\<lambda>_.
     js_bind (deref gl ''getShaderParameter''
                (\<lambda>_. gl_getShaderParameter shader COMPILE_STATUS)) (\<lambda>status.
     if \<not> status then
       js_bind (deref gl ''getShaderInfoLog'' (\<lambda>_. gl_getShaderInfoLog shader)) (\<lambda>info.
       js_bind (console_error info) (\<lambda>_.
       js_bind (deref gl ''deleteShader'' (\<lambda>_. gl_deleteShader shader)) (\<lambda>_.
       js_return None)))
     else js_return (Some shader)))))"

definition createProgram ::
    "browser \<Rightarrow> gl_context option \<Rightarrow> string \<Rightarrow> string \<Rightarrow> handle option js" where
  "createProgram b gl vertexShaderSource fragmentShaderSource =
     js_bind (deref gl ''VERTEX_SHADER'' (\<lambda>_. js_return VERTEX_SHADER)) (\<lambda>vty.
     js_bind (createShader b gl vty vertexShaderSource) (\<lambda>vertexShader.
     js_bind (deref gl ''FRAGMENT_SHADER'' (\<lambda>_. js_return FRAGMENT_SHADER)) (\<lambda>fty.
     js_bind (createShader b gl fty fragmentShaderSource) (\<lambda>fragmentShader.
     js_bind (deref gl ''createProgram'' (\<lambda>_. gl_createProgram)) (\<lambda>program.
     js_bind (deref gl ''attachShader'' (\<lambda>_. gl_attachShader b program vertexShader)) (\<lambda>_.
     js_bind (deref gl ''attachShader'' (\<lambda>_. gl_attachShader b program fragmentShader)) (\<lambda>_.
     js_bind (deref gl ''linkProgram'' (\<lambda>_. gl_linkProgram b program)) (\<lambda>_.
     js_bind (deref gl ''getProgramParameter''
                (\<lambda>_. gl_getProgramParameter program LINK_STATUS)) (\<lambda>status.
     if \<not> status then
       js_bind (deref gl ''getProgramInfoLog'' (\<lambda>_. gl_getProgramInfoLog program)) (\<lambda>info.
       js_bind (console_error info) (\<lambda>_.
       js_return None))
     else js_return (Some program))))))))))"

subsection \<open>The shader sources and the vertex data\<close>

definition vertShader :: string where
  "vertShader =
     ''\<newline>attribute vec2 a_points;\<newline>\<newline>attribute vec4 a_colors;\<newline>varying vec4 v_colors;\<newline>\<newline>void main() {\<newline>  gl_Position = vec4(a_points, 0, 1);\<newline>\<newline>  /* pass the colors attribute to the fragment */\<newline>  v_colors = a_colors;\<newline>}\<newline>''"

definition fragShader :: string where
  "fragShader =
     ''\<newline>#ifdef GL_ES\<newline>precision mediump float;\<newline>#endif\<newline>\<newline>varying vec4 v_colors;\<newline>\<newline>void main() {\<newline>  gl_FragColor = v_colors;\<newline>}\<newline>''"

definition points_arr :: "real list" where
  "points_arr = [- 1, - 1, 0, 0.5, 1, - 1]"

definition colors_arr :: "real list" where
  "colors_arr =
     [1, 0, 0, 1,
      0, 1, 0, 1,
      0, 0, 1, 1]"

subsection \<open>The top-level script\<close>

text \<open>
  The script of main.js from its first statement to its last, with the two shader
  sources as parameters; \<open>main\<close> is the script with the sources of the file.
\<close>

definition when_null :: "'o option \<Rightarrow> unit js \<Rightarrow> unit js" where
  "when_null v body = (if v = None then body else js_return ())"

definition main_with :: "browser \<Rightarrow> string \<Rightarrow> string \<Rightarrow> unit js" where
  "main_with b vsrc fsrc =
     js_bind (document_getElementById b ''leCanvas'') (\<lambda>canvas.
     js_bind (when_null canvas (console_error ''Canvas not found :('')) (\<lambda>_.
     js_bind (deref canvas ''getContext'' (\<lambda>c. canvas_getContext c ''webgl'')) (\<lambda>gl.
     js_bind (when_null gl (console_error ''WebGL not supported :('')) (\<lambda>_.
     js_bind (createProgram b gl vsrc fsrc) (\<lambda>program.
     js_bind (when_null program (console_error ''Failed to create program :('')) (\<lambda>_.
     js_bind (deref gl ''createBuffer'' (\<lambda>_. gl_createBuffer)) (\<lambda>pointsBuffer.
     js_bind (deref gl ''bindBuffer'' (\<lambda>_. gl_bindBuffer ARRAY_BUFFER pointsBuffer)) (\<lambda>_.
     js_bind (deref gl ''bufferData''
                (\<lambda>_. gl_bufferData ARRAY_BUFFER (Float32Array points_arr) STATIC_DRAW)) (\<lambda>_.
     js_bind (deref gl ''getAttribLocation''
                (\<lambda>_. gl_getAttribLocation b program ''a_points'')) (\<lambda>pointsLocation.
     js_bind (deref gl ''bindBuffer'' (\<lambda>_. gl_bindBuffer ARRAY_BUFFER pointsBuffer)) (\<lambda>_.
     js_bind (deref gl ''vertexAttribPointer''
                (\<lambda>_. gl_vertexAttribPointer pointsLocation 2 FLOAT False 0 0)) (\<lambda>_.
     js_bind (deref gl ''enableVertexAttribArray''
                (\<lambda>_. gl_enableVertexAttribArray pointsLocation)) (\<lambda>_.
     js_bind (deref gl ''createBuffer'' (\<lambda>_. gl_createBuffer)) (\<lambda>colorsBuffer.
     js_bind (deref gl ''bindBuffer'' (\<lambda>_. gl_bindBuffer ARRAY_BUFFER colorsBuffer)) (\<lambda>_.
     js_bind (deref gl ''bufferData''
                (\<lambda>_. gl_bufferData ARRAY_BUFFER (Float32Array colors_arr) STATIC_DRAW)) (\<lambda>_.
     js_bind (deref gl ''getAttribLocation''
                (\<lambda>_. gl_getAttribLocation b program ''a_colors'')) (\<lambda>colorLocation.
     js_bind (deref gl ''bindBuffer'' (\<lambda>_. gl_bindBuffer ARRAY_BUFFER colorsBuffer)) (\<lambda>_.
     js_bind (deref gl ''vertexAttribPointer''
                (\<lambda>_. gl_vertexAttribPointer colorLocation 4 FLOAT False 0 0)) (\<lambda>_.
     js_bind (deref gl ''enableVertexAttribArray''
                (\<lambda>_. gl_enableVertexAttribArray colorLocation)) (\<lambda>_.
     js_bind (deref gl ''viewport''
                (\<lambda>g. gl_viewport 0 0 (cv_width (gl_canvas g)) (cv_height (gl_canvas g)))) (\<lambda>_.
     js_bind (deref gl ''clearColor'' (\<lambda>_. gl_clearColor 0 0 0 1)) (\<lambda>_.
     js_bind (deref gl ''clear'' (\<lambda>_. gl_clear COLOR_BUFFER_BIT)) (\<lambda>_.
     js_bind (deref gl ''useProgram'' (\<lambda>_. gl_useProgram program)) (\<lambda>_.
     deref gl ''drawArrays'' (\<lambda>_. gl_drawArrays TRIANGLES 0 3)))))))))))))))))))))))))"

definition main :: "browser \<Rightarrow> unit js" where
  "main b = main_with b vertShader fragShader"

subsection \<open>Reading the trace and the vertex data\<close>

text \<open>The calls made on the context between two states of a run.\<close>

definition new_calls :: "world \<Rightarrow> world \<Rightarrow> gl_call list" where
  "new_calls w w' = drop (length (calls w)) (calls w')"

text \<open>The calls of the draw submission (lines 195 to 202 of main.js).\<close>

fun is_submission :: "gl_call \<Rightarrow> bool" where
  "is_submission (Viewport _ _ _ _) = True"
| "is_submission (ClearColor _ _ _ _) = True"
| "is_submission (Clear _) = True"
| "is_submission (UseProgram _) = True"
| "is_submission (DrawArrays _ _ _) = True"
| "is_submission _ = False"

fun is_draw :: "gl_call \<Rightarrow> bool" where
  "is_draw (DrawArrays _ _ _) = True"
| "is_draw _ = False"

text \<open>The calls that resolve, describe and enable a vertex attribute.\<close>

fun is_attrib_call :: "gl_call \<Rightarrow> bool" where
  "is_attrib_call (GetAttribLocation _ _) = True"
| "is_attrib_call (VertexAttribPointer _ _ _ _ _ _) = True"
| "is_attrib_call (EnableVertexAttribArray _) = True"
| "is_attrib_call _ = False"

text \<open>The calls that createShader and createProgram make.\<close>

fun is_program_call :: "gl_call \<Rightarrow> bool" where
  "is_program_call (CreateShader _) = True"
| "is_program_call (ShaderSource _ _) = True"
| "is_program_call (CompileShader _) = True"
| "is_program_call (GetShaderParameter _ _) = True"
| "is_program_call (GetShaderInfoLog _) = True"
| "is_program_call (DeleteShader _) = True"
| "is_program_call CreateProgram = True"
| "is_program_call (AttachShader _ _) = True"
| "is_program_call (LinkProgram _) = True"
| "is_program_call (GetProgramParameter _ _) = True"
| "is_program_call (GetProgramInfoLog _) = True"
| "is_program_call _ = False"

text \<open>The typed arrays uploaded with bufferData, in the order of the calls.\<close>

fun uploaded :: "gl_call list \<Rightarrow> typed_array list" where
  "uploaded [] = []"
| "uploaded (BufferData _ d _ # cs) = d # uploaded cs"
| "uploaded (_ # cs) = uploaded cs"

text \<open>The state in which gl.compileShader returns inside createShader.\<close>

definition after_compile :: "browser \<Rightarrow> shader_type \<Rightarrow> string \<Rightarrow> world \<Rightarrow> world" where
  "after_compile b ty src w =
     snd (js_bind (gl_createShader ty) (\<lambda>shader.
          js_bind (gl_shaderSource shader src) (\<lambda>_.
          gl_compileShader b shader)) w)"

text \<open>
  A statement that adds to the trace only calls of one kind, whatever state it starts in
  and whether it returns or throws.
\<close>

definition only_calls :: "(gl_call \<Rightarrow> bool) \<Rightarrow> 'a js \<Rightarrow> bool" where
  "only_calls P m = (\<forall>w. \<exists>cs. calls (snd (m w)) = calls w @ cs \<and> list_all P cs)"

text \<open>
  A flat array read as vertices of \<open>n\<close> components each, tightly packed from offset 0:
  vertex \<open>i\<close> is the elements \<open>n * i\<close> to \<open>n * i + n - 1\<close>. The fuel bounds the number
  of vertices read and is the length of the array wherever this is used.
\<close>

fun vertices_upto :: "nat \<Rightarrow> nat \<Rightarrow> 'a list \<Rightarrow> 'a list list" where
  "vertices_upto 0 n xs = []"
| "vertices_upto (Suc k) n xs =
     (if xs = [] \<or> n = 0 then [] else take n xs # vertices_upto k n (drop n xs))"

definition vertices :: "nat \<Rightarrow> 'a list \<Rightarrow> 'a list list" where
  "vertices n xs = vertices_upto (length xs) n xs"

subsection \<open>Browsers to run the script on\<close>

definition leCanvas :: canvas where
  "leCanvas = \<lparr>cv_width = 300, cv_height = 150, cv_webgl = True\<rparr>"

text \<open>
  A browser that accepts the two sources of main.js and nothing else, links a program
  that has a compiled shader of each stage, and tolerates or refuses null handles as told.
\<close>

definition accepts :: "shader_type \<Rightarrow> string \<Rightarrow> bool" where
  "accepts ty src = (src = (if ty = VERTEX_SHADER then vertShader else fragShader))"

definition links :: "shader_obj list \<Rightarrow> bool" where
  "links objs = (map sh_type (filter sh_compiled objs) = [VERTEX_SHADER, FRAGMENT_SHADER])"

definition ref_browser :: "bool \<Rightarrow> browser" where
  "ref_browser strict =
     \<lparr>document = (\<lambda>i. if i = ''leCanvas'' then Some leCanvas else None),
      compileStatus = accepts,
      shaderInfoLog = (\<lambda>ty src. if accepts ty src then [] else ''ERROR: syntax error''),
      linkStatus = links,
      programInfoLog = (\<lambda>objs. if links objs then [] else ''ERROR: missing shader''),
      attribLocation =
        (\<lambda>objs name. if name = ''a_points'' then 0 else if name = ''a_colors'' then 1 else - 1),
      nullHandleThrows = strict\<rparr>"

text \<open>The fragment source of main.js without the semicolon of its assignment.\<close>

definition badFragShader :: string where
  "badFragShader =
     ''\<newline>#ifdef GL_ES\<newline>precision mediump float;\<newline>#endif\<newline>\<newline>varying vec4 v_colors;\<newline>\<newline>void main() {\<newline>  gl_FragColor = v_colors\<newline>}\<newline>''"

text \<open>A page without the canvas, and a canvas that gives no WebGL context.\<close>

definition no_canvas_browser :: browser where
  "no_canvas_browser = (ref_browser False)\<lparr>document := (\<lambda>i. None)\<rparr>"

definition no_webgl_browser :: browser where
  "no_webgl_browser =
     (ref_browser False)\<lparr>document :=
        (\<lambda>i. if i = ''leCanvas'' then Some (leCanvas\<lparr>cv_webgl := False\<rparr>) else None)\<rparr>"

section \<open>Properties\<close>

subsection \<open>Rules for statements\<close>

lemma js_bind_apply: "js_bind m f w = (case m w of (Inl e, w') \<Rightarrow> (Inl e, w') | (Inr x, w') \<Rightarrow> f x w')"
  by (simp add: js_bind_def)

lemma deref_Some: "deref (Some x) member k = k x"
  by (simp add: deref_def)

lemma deref_None: "deref None member k = js_throw (TypeError member)"
  by (simp add: deref_def)

lemma js_bind_return: "js_bind (js_return x) f = f x"
  by (simp add: js_bind_def js_return_def)

lemma js_bind_throw: "js_bind (js_throw e) f = js_throw e"
  by (simp add: js_bind_def js_throw_def)

lemma createShader_eq:
  "createShader b (Some g) ty src w =
     (if compileStatus b ty src
      then (Inr (Some (next_handle w)),
            w\<lparr>next_handle := Suc (next_handle w),
              shaders := (shaders w)(next_handle w \<mapsto>
                \<lparr>sh_type = ty, sh_source = src, sh_compiled = True,
                 sh_log = shaderInfoLog b ty src\<rparr>),
              calls := calls w @
                [CreateShader ty, ShaderSource (next_handle w) src,
                 CompileShader (next_handle w),
                 GetShaderParameter (next_handle w) COMPILE_STATUS]\<rparr>)
      else (Inr None,
            w\<lparr>console := console w @ [shaderInfoLog b ty src],
              next_handle := Suc (next_handle w),
              shaders := (shaders w)(next_handle w := None),
              calls := calls w @
                [CreateShader ty, ShaderSource (next_handle w) src,
                 CompileShader (next_handle w),
                 GetShaderParameter (next_handle w) COMPILE_STATUS,
                 GetShaderInfoLog (next_handle w), DeleteShader (next_handle w)]\<rparr>))"
  by (simp add: createShader_def js_bind_apply deref_def js_return_def console_error_def traced_def
      gl_createShader_def gl_shaderSource_def gl_compileShader_def gl_getShaderParameter_def
      gl_getShaderInfoLog_def gl_deleteShader_def)

lemma createProgram_unfold:
  "createProgram b (Some g) vsrc fsrc =
     js_bind (createShader b (Some g) VERTEX_SHADER vsrc) (\<lambda>vertexShader.
     js_bind (createShader b (Some g) FRAGMENT_SHADER fsrc) (\<lambda>fragmentShader.
     js_bind gl_createProgram (\<lambda>program.
     js_bind (gl_attachShader b program vertexShader) (\<lambda>_.
     js_bind (gl_attachShader b program fragmentShader) (\<lambda>_.
     js_bind (gl_linkProgram b program) (\<lambda>_.
     js_bind (gl_getProgramParameter program LINK_STATUS) (\<lambda>status.
     if \<not> status then
       js_bind (gl_getProgramInfoLog program) (\<lambda>info.
       js_bind (console_error info) (\<lambda>_.
       js_return None))
     else js_return (Some program))))))))"
  by (simp add: createProgram_def deref_Some js_bind_return cong: if_cong)

lemma attach_frame [simp]:
  "console (attach p h w) = console w"
  "next_handle (attach p h w) = next_handle w"
  "shaders (attach p h w) = shaders w"
  "calls (attach p h w) = calls w"
  "programs (attach p h w) p =
     map_option (\<lambda>obj. if shaders w h = None then obj
                         else obj\<lparr>pr_attached := pr_attached obj @ [h]\<rparr>) (programs w p)"
  by (auto simp add: attach_def split: option.splits)

lemma link_frame [simp]:
  "console (link b p w) = console w"
  "next_handle (link b p w) = next_handle w"
  "shaders (link b p w) = shaders w"
  "calls (link b p w) = calls w"
  "programs (link b p w) p =
     map_option (\<lambda>obj. obj\<lparr>pr_linked := linkStatus b (attached_objs w obj),
                             pr_log := programInfoLog b (attached_objs w obj)\<rparr>) (programs w p)"
  by (simp_all add: link_def split: option.splits)

lemma gl_attachShader_apply:
  "s = None \<longrightarrow> \<not> nullHandleThrows b \<Longrightarrow>
   gl_attachShader b p s w =
     (Inr (), traced (AttachShader p s) (case s of None \<Rightarrow> w | Some h \<Rightarrow> attach p h w))"
  by (simp add: gl_attachShader_def split: option.splits)

lemma traced_frame [simp]:
  "console (traced c w) = console w"
  "next_handle (traced c w) = next_handle w"
  "shaders (traced c w) = shaders w"
  "programs (traced c w) = programs w"
  "calls (traced c w) = calls w @ [c]"
  by (simp_all add: traced_def)

lemma createProgram_tail:
  assumes cs1: "createShader b (Some g) VERTEX_SHADER vsrc w = (Inr vs, w1)"
      and cs2: "createShader b (Some g) FRAGMENT_SHADER fsrc w1 = (Inr fs, w2)"
      and tol: "\<not> nullHandleThrows b"
  shows "\<exists>r w' rest. createProgram b (Some g) vsrc fsrc w = (Inr r, w') \<and>
           calls w' = calls w2 @
             [CreateProgram, AttachShader (next_handle w2) vs, AttachShader (next_handle w2) fs,
              LinkProgram (next_handle w2), GetProgramParameter (next_handle w2) LINK_STATUS] @ rest \<and>
           programs w' (next_handle w2) \<noteq> None"
  using tol
  by (cases vs; cases fs)
     (simp_all add: createProgram_unfold js_bind_apply cs1 cs2 js_return_def console_error_def
        gl_createProgram_def gl_attachShader_apply gl_linkProgram_def gl_getProgramParameter_def
        gl_getProgramInfoLog_def)


lemma createShader_null: "createShader b None ty src w = (Inl (TypeError ''createShader''), w)"
  by (simp add: createShader_def deref_None js_bind_throw) (simp add: js_throw_def)

lemma createProgram_null:
  "createProgram b None vsrc fsrc w = (Inl (TypeError ''VERTEX_SHADER''), w)"
  by (simp add: createProgram_def deref_None js_bind_throw) (simp add: js_throw_def)

lemma only_calls_bind:
  assumes "only_calls P m" and "\<And>x. only_calls P (f x)"
  shows "only_calls P (js_bind m f)"
  unfolding only_calls_def
proof
  fix w
  obtain r w1 where mw: "m w = (r, w1)" by (cases "m w")
  from assms(1) obtain cs where cs: "calls w1 = calls w @ cs" "list_all P cs"
    unfolding only_calls_def using mw by (metis snd_conv)
  show "\<exists>cs. calls (snd (js_bind m f w)) = calls w @ cs \<and> list_all P cs"
  proof (cases r)
    case (Inl e)
    then show ?thesis using mw cs by (simp add: js_bind_apply)
  next
    case (Inr x)
    from assms(2) [of x] obtain ds where "calls (snd (f x w1)) = calls w1 @ ds" "list_all P ds"
      unfolding only_calls_def by blast
    then show ?thesis using mw cs Inr
      by (intro exI [of _ "cs @ ds"]) (simp add: js_bind_apply)
  qed
qed

lemma only_calls_return: "only_calls P (js_return x)"
  by (simp add: only_calls_def js_return_def)

lemma only_calls_throw: "only_calls P (js_throw e)"
  by (simp add: only_calls_def js_throw_def)

lemma only_calls_deref: "(\<And>x. only_calls P (k x)) \<Longrightarrow> only_calls P (deref obj member k)"
  by (simp add: deref_def only_calls_throw split: option.splits)

lemma only_calls_if:
  "only_calls P m \<Longrightarrow> only_calls P n \<Longrightarrow> only_calls P (if c then m else n)"
  by simp

lemma only_calls_console: "only_calls P (console_error msg)"
  by (simp add: only_calls_def console_error_def)

lemma only_calls_shader_ops:
  "only_calls is_program_call (gl_createShader ty)"
  "only_calls is_program_call (gl_shaderSource h src)"
  "only_calls is_program_call (gl_compileShader b h)"
  "only_calls is_program_call (gl_getShaderParameter h pname)"
  "only_calls is_program_call (gl_getShaderInfoLog h)"
  "only_calls is_program_call (gl_deleteShader h)"
  by (simp_all add: only_calls_def gl_createShader_def gl_shaderSource_def gl_compileShader_def
      gl_getShaderParameter_def gl_getShaderInfoLog_def gl_deleteShader_def
      split: option.splits)

lemma only_calls_program_ops:
  "only_calls is_program_call gl_createProgram"
  "only_calls is_program_call (gl_attachShader b p s)"
  "only_calls is_program_call (gl_linkProgram b p)"
  "only_calls is_program_call (gl_getProgramParameter p pname)"
  "only_calls is_program_call (gl_getProgramInfoLog p)"
  by (simp_all add: only_calls_def gl_createProgram_def gl_attachShader_def gl_linkProgram_def
      gl_getProgramParameter_def gl_getProgramInfoLog_def js_throw_def
      split: option.splits)

lemma only_calls_createShader: "only_calls is_program_call (createShader b gl ty src)"
  unfolding createShader_def
  by (intro only_calls_bind only_calls_deref only_calls_if only_calls_return
      only_calls_console only_calls_shader_ops)

lemma only_calls_createProgram: "only_calls is_program_call (createProgram b gl vsrc fsrc)"
  unfolding createProgram_def
  by (intro only_calls_bind only_calls_deref only_calls_if only_calls_return
      only_calls_console only_calls_program_ops only_calls_createShader)

lemma createProgram_calls:
  assumes "createProgram b gl vsrc fsrc w = (r, w1)"
  obtains cs where "calls w1 = calls w @ cs" and "list_all is_program_call cs"
  using only_calls_createProgram [of b gl vsrc fsrc] assms
  unfolding only_calls_def by (metis snd_conv)

lemma program_calls_filter:
  assumes "list_all is_program_call cs"
  shows "filter is_submission cs = []" and "filter is_attrib_call cs = []"
    and "filter is_draw cs = []" and "uploaded cs = []"
proof -
  have "\<not> is_submission c \<and> \<not> is_attrib_call c \<and> \<not> is_draw c \<and> uploaded (c # ds) = uploaded ds"
    if "is_program_call c" for c ds
    using that by (cases c) simp_all
  with assms show "filter is_submission cs = []" and "filter is_attrib_call cs = []"
    and "filter is_draw cs = []" and "uploaded cs = []"
    by (induction cs; simp)+
qed

subsection \<open>The top-level script, case by case\<close>

lemma main_no_canvas:
  assumes "document b ''leCanvas'' = None"
  shows "main_with b vsrc fsrc w =
           (Inl (TypeError ''getContext''), w\<lparr>console := console w @ [''Canvas not found :('']\<rparr>)"
  by (simp add: main_with_def document_getElementById_def js_bind_return assms when_null_def
      deref_None js_bind_throw)
     (simp add: js_bind_apply console_error_def js_throw_def)

lemma main_no_webgl:
  assumes "document b ''leCanvas'' = Some c" and "\<not> cv_webgl c"
  shows "main_with b vsrc fsrc w =
           (Inl (TypeError ''VERTEX_SHADER''),
            w\<lparr>console := console w @ [''WebGL not supported :('']\<rparr>)"
  by (simp add: main_with_def document_getElementById_def canvas_getContext_def js_bind_return
      assms when_null_def deref_Some)
     (simp add: js_bind_apply console_error_def createProgram_null)

lemma main_with_unfold:
  assumes "document b ''leCanvas'' = Some c" and "cv_webgl c"
  shows "main_with b vsrc fsrc =
     js_bind (createProgram b (Some (WebGLRenderingContext c)) vsrc fsrc) (\<lambda>program.
     js_bind (when_null program (console_error ''Failed to create program :('')) (\<lambda>_.
     js_bind gl_createBuffer (\<lambda>pointsBuffer.
     js_bind (gl_bindBuffer ARRAY_BUFFER pointsBuffer) (\<lambda>_.
     js_bind (gl_bufferData ARRAY_BUFFER (Float32Array points_arr) STATIC_DRAW) (\<lambda>_.
     js_bind (gl_getAttribLocation b program ''a_points'') (\<lambda>pointsLocation.
     js_bind (gl_bindBuffer ARRAY_BUFFER pointsBuffer) (\<lambda>_.
     js_bind (gl_vertexAttribPointer pointsLocation 2 FLOAT False 0 0) (\<lambda>_.
     js_bind (gl_enableVertexAttribArray pointsLocation) (\<lambda>_.
     js_bind gl_createBuffer (\<lambda>colorsBuffer.
     js_bind (gl_bindBuffer ARRAY_BUFFER colorsBuffer) (\<lambda>_.
     js_bind (gl_bufferData ARRAY_BUFFER (Float32Array colors_arr) STATIC_DRAW) (\<lambda>_.
     js_bind (gl_getAttribLocation b program ''a_colors'') (\<lambda>colorLocation.
     js_bind (gl_bindBuffer ARRAY_BUFFER colorsBuffer) (\<lambda>_.
     js_bind (gl_vertexAttribPointer colorLocation 4 FLOAT False 0 0) (\<lambda>_.
     js_bind (gl_enableVertexAttribArray colorLocation) (\<lambda>_.
     js_bind (gl_viewport 0 0 (cv_width c) (cv_height c)) (\<lambda>_.
     js_bind (gl_clearColor 0 0 0 1) (\<lambda>_.
     js_bind (gl_clear COLOR_BUFFER_BIT) (\<lambda>_.
     js_bind (gl_useProgram program) (\<lambda>_.
     gl_drawArrays TRIANGLES 0 3))))))))))))))))))))"
  by (simp add: main_with_def document_getElementById_def canvas_getContext_def js_bind_return
      assms when_null_def deref_Some)

lemma main_program_throws:
  assumes "document b ''leCanvas'' = Some c" and "cv_webgl c"
      and "createProgram b (Some (WebGLRenderingContext c)) vsrc fsrc w = (Inl e, w1)"
  shows "main_with b vsrc fsrc w = (Inl e, w1)"
  by (simp add: main_with_unfold [OF assms(1,2)] js_bind_apply assms(3))

lemma attrib_slot_frame:
  "programs w' = programs w \<Longrightarrow> shaders w' = shaders w \<Longrightarrow>
   attrib_slot b w' = attrib_slot b w"
  by (intro ext) (simp add: attrib_slot_def attached_objs_def split: option.splits)

lemmas buffer_defs =
  gl_createBuffer_def gl_bindBuffer_def gl_bufferData_def gl_getAttribLocation_def
  gl_vertexAttribPointer_def gl_enableVertexAttribArray_def gl_viewport_def gl_clearColor_def
  gl_clear_def gl_useProgram_def gl_drawArrays_def

lemma main_completes:
  assumes "document b ''leCanvas'' = Some c" and "cv_webgl c"
      and "createProgram b (Some (WebGLRenderingContext c)) vsrc fsrc w = (Inr program, w1)"
      and "program = None \<longrightarrow> \<not> nullHandleThrows b"
  shows "\<exists>w'. main_with b vsrc fsrc w = (Inr (), w') \<and>
           console w' =
             console w1 @ (if program = None then [''Failed to create program :(''] else []) \<and>
           shaders w' = shaders w1 \<and> programs w' = programs w1 \<and>
           calls w' = calls w1 @
             [CreateBuffer, BindBuffer ARRAY_BUFFER (next_handle w1),
              BufferData ARRAY_BUFFER (Float32Array points_arr) STATIC_DRAW,
              GetAttribLocation program ''a_points'',
              BindBuffer ARRAY_BUFFER (next_handle w1),
              VertexAttribPointer (attrib_slot b w1 program ''a_points'') 2 FLOAT False 0 0,
              EnableVertexAttribArray (attrib_slot b w1 program ''a_points''),
              CreateBuffer, BindBuffer ARRAY_BUFFER (Suc (next_handle w1)),
              BufferData ARRAY_BUFFER (Float32Array colors_arr) STATIC_DRAW,
              GetAttribLocation program ''a_colors'',
              BindBuffer ARRAY_BUFFER (Suc (next_handle w1)),
              VertexAttribPointer (attrib_slot b w1 program ''a_colors'') 4 FLOAT False 0 0,
              EnableVertexAttribArray (attrib_slot b w1 program ''a_colors''),
              Viewport 0 0 (cv_width c) (cv_height c), ClearColor 0 0 0 1,
              Clear COLOR_BUFFER_BIT, UseProgram program, DrawArrays TRIANGLES 0 3]"
proof (cases program)
  case None
  with assms(4) have tol: "\<not> nullHandleThrows b" by simp
  have slot: "attrib_slot b v None name = - 1" for v name
    by (simp add: attrib_slot_def)
  show ?thesis
    by (simp add: main_with_unfold [OF assms(1,2)] js_bind_apply assms(3) None tol when_null_def
        console_error_def buffer_defs slot)
next
  case (Some p)
  have slot: "attrib_slot b (traced x v) = attrib_slot b v"
             "attrib_slot b (v\<lparr>next_handle := n\<rparr>) = attrib_slot b v" for x v n
    by (rule attrib_slot_frame; simp)+
  show ?thesis
    by (simp add: main_with_unfold [OF assms(1,2)] js_bind_apply assms(3) Some when_null_def
        js_return_def buffer_defs slot)
qed

lemma main_null_program_throws:
  assumes "document b ''leCanvas'' = Some c" and "cv_webgl c"
      and "createProgram b (Some (WebGLRenderingContext c)) vsrc fsrc w = (Inr None, w1)"
      and "nullHandleThrows b"
  shows "\<exists>w'. main_with b vsrc fsrc w = (Inl (TypeError ''getAttribLocation''), w') \<and>
           calls w' = calls w1 @
             [CreateBuffer, BindBuffer ARRAY_BUFFER (next_handle w1),
              BufferData ARRAY_BUFFER (Float32Array points_arr) STATIC_DRAW]"
  by (simp add: main_with_unfold [OF assms(1,2)] js_bind_apply assms(3,4) when_null_def
      console_error_def buffer_defs js_throw_def)

lemma main_completed_cases:
  assumes "main_with b vsrc fsrc w = (Inr (), w')"
  obtains c program w1 where "document b ''leCanvas'' = Some c" and "cv_webgl c"
    and "createProgram b (Some (WebGLRenderingContext c)) vsrc fsrc w = (Inr program, w1)"
    and "program = None \<longrightarrow> \<not> nullHandleThrows b"
proof (cases "document b ''leCanvas''")
  case None
  from main_no_canvas [OF None, of vsrc fsrc w] assms show ?thesis by simp
next
  case (Some c)
  show ?thesis
  proof (cases "cv_webgl c")
    case False
    from main_no_webgl [OF Some False, of vsrc fsrc w] assms show ?thesis by simp
  next
    case True
    obtain r w1 where cp: "createProgram b (Some (WebGLRenderingContext c)) vsrc fsrc w = (r, w1)"
      by (cases "createProgram b (Some (WebGLRenderingContext c)) vsrc fsrc w")
    show ?thesis
    proof (cases r)
      case (Inl e)
      from main_program_throws [OF Some True cp [unfolded Inl]] assms show ?thesis by simp
    next
      case (Inr program)
      show ?thesis
      proof (cases "program = None \<and> nullHandleThrows b")
        case True
        with main_null_program_throws [OF Some \<open>cv_webgl c\<close>, of vsrc fsrc w w1] cp Inr assms
        show ?thesis by auto
      next
        case False
        with that [OF Some \<open>cv_webgl c\<close> cp [unfolded Inr]] show ?thesis by blast
      qed
    qed
  qed
qed

lemma createProgram_fragment_rejected:
  assumes "compileStatus b VERTEX_SHADER vsrc" and "\<not> compileStatus b FRAGMENT_SHADER fsrc"
      and "\<not> nullHandleThrows b"
      and "\<not> linkStatus b [\<lparr>sh_type = VERTEX_SHADER, sh_source = vsrc, sh_compiled = True,
                              sh_log = shaderInfoLog b VERTEX_SHADER vsrc\<rparr>]"
  shows "\<exists>w1. createProgram b (Some g) vsrc fsrc w = (Inr None, w1) \<and>
           console w1 = console w @
             [shaderInfoLog b FRAGMENT_SHADER fsrc,
              programInfoLog b [\<lparr>sh_type = VERTEX_SHADER, sh_source = vsrc, sh_compiled = True,
                                  sh_log = shaderInfoLog b VERTEX_SHADER vsrc\<rparr>]]"
  using assms
  by (simp add: createProgram_unfold js_bind_apply createShader_eq js_return_def console_error_def
      gl_createProgram_def gl_attachShader_def gl_linkProgram_def gl_getProgramParameter_def
      gl_getProgramInfoLog_def attached_objs_def)

lemma createProgram_fragment_rejected_strict:
  assumes "compileStatus b VERTEX_SHADER vsrc" and "\<not> compileStatus b FRAGMENT_SHADER fsrc"
      and "nullHandleThrows b"
  shows "\<exists>w1. createProgram b (Some g) vsrc fsrc w = (Inl (TypeError ''attachShader''), w1) \<and>
           console w1 = console w @ [shaderInfoLog b FRAGMENT_SHADER fsrc] \<and>
           calls w1 = calls w @
             [CreateShader VERTEX_SHADER, ShaderSource (next_handle w) vsrc,
              CompileShader (next_handle w), GetShaderParameter (next_handle w) COMPILE_STATUS,
              CreateShader FRAGMENT_SHADER, ShaderSource (Suc (next_handle w)) fsrc,
              CompileShader (Suc (next_handle w)),
              GetShaderParameter (Suc (next_handle w)) COMPILE_STATUS,
              GetShaderInfoLog (Suc (next_handle w)), DeleteShader (Suc (next_handle w)),
              CreateProgram,
              AttachShader (Suc (Suc (next_handle w))) (Some (next_handle w))]"
  using assms
  by (simp add: createProgram_unfold js_bind_apply createShader_eq js_return_def js_throw_def
      gl_createProgram_def gl_attachShader_def)

lemma main_completed_calls:
  assumes "main_with b vsrc fsrc w = (Inr (), w')"
  obtains c program w1 cs where
    "document b ''leCanvas'' = Some c" and "cv_webgl c"
    and "createProgram b (Some (WebGLRenderingContext c)) vsrc fsrc w = (Inr program, w1)"
    and "list_all is_program_call cs"
    and "console w' =
           console w1 @ (if program = None then [''Failed to create program :(''] else [])"
    and "attrib_slot b w' = attrib_slot b w1"
    and "new_calls w w' = cs @
             [CreateBuffer, BindBuffer ARRAY_BUFFER (next_handle w1),
              BufferData ARRAY_BUFFER (Float32Array points_arr) STATIC_DRAW,
              GetAttribLocation program ''a_points'',
              BindBuffer ARRAY_BUFFER (next_handle w1),
              VertexAttribPointer (attrib_slot b w1 program ''a_points'') 2 FLOAT False 0 0,
              EnableVertexAttribArray (attrib_slot b w1 program ''a_points''),
              CreateBuffer, BindBuffer ARRAY_BUFFER (Suc (next_handle w1)),
              BufferData ARRAY_BUFFER (Float32Array colors_arr) STATIC_DRAW,
              GetAttribLocation program ''a_colors'',
              BindBuffer ARRAY_BUFFER (Suc (next_handle w1)),
              VertexAttribPointer (attrib_slot b w1 program ''a_colors'') 4 FLOAT False 0 0,
              EnableVertexAttribArray (attrib_slot b w1 program ''a_colors''),
              Viewport 0 0 (cv_width c) (cv_height c), ClearColor 0 0 0 1,
              Clear COLOR_BUFFER_BIT, UseProgram program, DrawArrays TRIANGLES 0 3]"
proof -
  from assms obtain c program w1 where c: "document b ''leCanvas'' = Some c" "cv_webgl c"
    and cp: "createProgram b (Some (WebGLRenderingContext c)) vsrc fsrc w = (Inr program, w1)"
    and tol: "program = None \<longrightarrow> \<not> nullHandleThrows b"
    by (rule main_completed_cases)
  from cp obtain cs where cs: "calls w1 = calls w @ cs" "list_all is_program_call cs"
    by (rule createProgram_calls)
  from main_completes [OF c cp tol] assms
  have w': "console w' =
        console w1 @ (if program = None then [''Failed to create program :(''] else [])"
      "shaders w' = shaders w1" "programs w' = programs w1"
      "calls w' = calls w1 @
             [CreateBuffer, BindBuffer ARRAY_BUFFER (next_handle w1),
              BufferData ARRAY_BUFFER (Float32Array points_arr) STATIC_DRAW,
              GetAttribLocation program ''a_points'',
              BindBuffer ARRAY_BUFFER (next_handle w1),
              VertexAttribPointer (attrib_slot b w1 program ''a_points'') 2 FLOAT False 0 0,
              EnableVertexAttribArray (attrib_slot b w1 program ''a_points''),
              CreateBuffer, BindBuffer ARRAY_BUFFER (Suc (next_handle w1)),
              BufferData ARRAY_BUFFER (Float32Array colors_arr) STATIC_DRAW,
              GetAttribLocation program ''a_colors'',
              BindBuffer ARRAY_BUFFER (Suc (next_handle w1)),
              VertexAttribPointer (attrib_slot b w1 program ''a_colors'') 4 FLOAT False 0 0,
              EnableVertexAttribArray (attrib_slot b w1 program ''a_colors''),
              Viewport 0 0 (cv_width c) (cv_height c), ClearColor 0 0 0 1,
              Clear COLOR_BUFFER_BIT, UseProgram program, DrawArrays TRIANGLES 0 3]"
    by auto
  show ?thesis
    by (rule that [OF c cp cs(2) w'(1) attrib_slot_frame [OF w'(3,2)]])
       (simp add: new_calls_def w'(4) cs(1))
qed

lemma createShader_returns: "\<exists>r w1. createShader b (Some g) ty src w = (Inr r, w1)"
  by (simp add: createShader_eq)

lemma main_tolerant_completes:
  assumes "document b ''leCanvas'' = Some c" and "cv_webgl c" and "\<not> nullHandleThrows b"
  shows "\<exists>w'. main_with b vsrc fsrc w = (Inr (), w')"
proof -
  let ?g = "WebGLRenderingContext c"
  obtain vs w1 where cs1: "createShader b (Some ?g) VERTEX_SHADER vsrc w = (Inr vs, w1)"
    using createShader_returns by blast
  obtain fs w2 where cs2: "createShader b (Some ?g) FRAGMENT_SHADER fsrc w1 = (Inr fs, w2)"
    using createShader_returns by blast
  from createProgram_tail [OF cs1 cs2 assms(3)]
  obtain r w3 where "createProgram b (Some ?g) vsrc fsrc w = (Inr r, w3)"
    by blast
  from main_completes [OF assms(1,2) this] assms(3) show ?thesis
    by blast
qed


lemma fragment_rejected_tolerant:
  assumes "document b ''leCanvas'' = Some c" and "cv_webgl c"
      and "compileStatus b VERTEX_SHADER vsrc" and "\<not> compileStatus b FRAGMENT_SHADER fsrc"
      and "\<not> nullHandleThrows b"
      and "\<not> linkStatus b [\<lparr>sh_type = VERTEX_SHADER, sh_source = vsrc, sh_compiled = True,
                              sh_log = shaderInfoLog b VERTEX_SHADER vsrc\<rparr>]"
  shows "\<exists>w1 w'. createProgram b (Some (WebGLRenderingContext c)) vsrc fsrc w = (Inr None, w1) \<and>
           main_with b vsrc fsrc w = (Inr (), w') \<and>
           console w' = console w @
             [shaderInfoLog b FRAGMENT_SHADER fsrc,
              programInfoLog b [\<lparr>sh_type = VERTEX_SHADER, sh_source = vsrc, sh_compiled = True,
                                  sh_log = shaderInfoLog b VERTEX_SHADER vsrc\<rparr>],
              ''Failed to create program :(''] \<and>
           filter is_submission (new_calls w w') =
             [Viewport 0 0 (cv_width c) (cv_height c), ClearColor 0 0 0 1,
              Clear COLOR_BUFFER_BIT, UseProgram None, DrawArrays TRIANGLES 0 3]"
proof -
  let ?g = "WebGLRenderingContext c"
  from createProgram_fragment_rejected [OF assms(3-6)]
  obtain w1 where cp: "createProgram b (Some ?g) vsrc fsrc w = (Inr None, w1)"
    and con: "console w1 = console w @
             [shaderInfoLog b FRAGMENT_SHADER fsrc,
              programInfoLog b [\<lparr>sh_type = VERTEX_SHADER, sh_source = vsrc, sh_compiled = True,
                                  sh_log = shaderInfoLog b VERTEX_SHADER vsrc\<rparr>]]"
    by blast
  from cp obtain cs where cs: "calls w1 = calls w @ cs" "list_all is_program_call cs"
    by (rule createProgram_calls)
  from main_completes [OF assms(1,2) cp] assms(5)
  obtain w' where run: "main_with b vsrc fsrc w = (Inr (), w')"
    and con': "console w' = console w1 @ [''Failed to create program :('']"
    and sub: "filter is_submission (drop (length (calls w)) (calls w')) =
        filter is_submission cs @
             [Viewport 0 0 (cv_width c) (cv_height c), ClearColor 0 0 0 1,
              Clear COLOR_BUFFER_BIT, UseProgram None, DrawArrays TRIANGLES 0 3]"
    by (auto simp add: cs(1))
  from cp run con con' sub show ?thesis
    by (simp add: new_calls_def program_calls_filter [OF cs(2)])
qed

lemma fragment_rejected_strict:
  assumes "document b ''leCanvas'' = Some c" and "cv_webgl c"
      and "compileStatus b VERTEX_SHADER vsrc" and "\<not> compileStatus b FRAGMENT_SHADER fsrc"
      and "nullHandleThrows b"
  shows "\<exists>w'. createProgram b (Some (WebGLRenderingContext c)) vsrc fsrc w =
                 (Inl (TypeError ''attachShader''), w') \<and>
           main_with b vsrc fsrc w = (Inl (TypeError ''attachShader''), w') \<and>
           console w' = console w @ [shaderInfoLog b FRAGMENT_SHADER fsrc] \<and>
           filter is_submission (new_calls w w') = []"
proof -
  let ?g = "WebGLRenderingContext c"
  from createProgram_fragment_rejected_strict [OF assms(3-5)]
  obtain w1 where cp: "createProgram b (Some ?g) vsrc fsrc w = (Inl (TypeError ''attachShader''), w1)"
    and con: "console w1 = console w @ [shaderInfoLog b FRAGMENT_SHADER fsrc]"
    by blast
  from cp obtain cs where cs: "calls w1 = calls w @ cs" "list_all is_program_call cs"
    by (rule createProgram_calls)
  from main_program_throws [OF assms(1,2) cp] cp con show ?thesis
    by (simp add: new_calls_def cs(1) program_calls_filter [OF cs(2)])
qed

subsection \<open>The browsers of the examples\<close>

lemma ref_browser_fields [simp]:
  "document (ref_browser s) ''leCanvas'' = Some leCanvas"
  "compileStatus (ref_browser s) = accepts"
  "shaderInfoLog (ref_browser s) ty src = (if accepts ty src then [] else ''ERROR: syntax error'')"
  "linkStatus (ref_browser s) = links"
  "programInfoLog (ref_browser s) objs = (if links objs then [] else ''ERROR: missing shader'')"
  "nullHandleThrows (ref_browser s) = s"
  by (simp_all add: ref_browser_def)

lemma accepts_sources [simp]:
  "accepts VERTEX_SHADER vertShader"
  "accepts FRAGMENT_SHADER fragShader"
  "\<not> accepts FRAGMENT_SHADER badFragShader"
  by (simp_all add: accepts_def badFragShader_def fragShader_def)

lemma init_world_fields [simp]:
  "console init_world = []"
  "next_handle init_world = 1"
  "shaders init_world = Map.empty"
  "programs init_world = Map.empty"
  "calls init_world = []"
  by (simp_all add: init_world_def)

lemma leCanvas_fields [simp]:
  "cv_width leCanvas = 300" "cv_height leCanvas = 150" "cv_webgl leCanvas"
  by (simp_all add: leCanvas_def)

lemma no_canvas_browser_document [simp]:
  "document no_canvas_browser ''leCanvas'' = None"
  by (simp add: no_canvas_browser_def)

lemma no_webgl_browser_document [simp]:
  "document no_webgl_browser ''leCanvas'' = Some (leCanvas\<lparr>cv_webgl := False\<rparr>)"
  by (simp add: no_webgl_browser_def)

lemma ref_browser_completes:
  "\<exists>w'. main_with (ref_browser False) vsrc fsrc w = (Inr (), w')"
  by (rule main_tolerant_completes [of _ leCanvas]) simp_all

subsection \<open>The shader compiler\<close>

text \<open>
  Claim C3. When the compile status check fails, createShader logs the diagnostic text
  that the browser's compiler produced, deletes the shader it had created and returns
  null; it does not throw. The trace shows the six calls made, the last one the deletion;
  the console has one more line, the compiler's text; the handle is no longer a shader of
  the context; the result is the \<open>Inr\<close> value null.
\<close>


theorem createShader_compile_failure:
  assumes "\<not> compileStatus b ty src"
  shows "\<exists>w'. createShader b (Some g) ty src w = (Inr None, w') \<and>
           console w' = console w @ [shaderInfoLog b ty src] \<and>
           shaders w' (next_handle w) = None \<and>
           programs w' = programs w \<and>
           new_calls w w' =
             [CreateShader ty, ShaderSource (next_handle w) src, CompileShader (next_handle w),
              GetShaderParameter (next_handle w) COMPILE_STATUS,
              GetShaderInfoLog (next_handle w), DeleteShader (next_handle w)]"
  using assms by (simp add: createShader_eq new_calls_def)

theorem createShader_compile_failure_witness:
  "\<not> compileStatus (ref_browser False) FRAGMENT_SHADER badFragShader \<and>
   (\<exists>w'. createShader (ref_browser False) (Some (WebGLRenderingContext leCanvas))
            FRAGMENT_SHADER badFragShader init_world = (Inr None, w') \<and>
          console w' = [''ERROR: syntax error''] \<and>
          shaders w' 1 = None \<and>
          new_calls init_world w' =
            [CreateShader FRAGMENT_SHADER, ShaderSource 1 badFragShader, CompileShader 1,
             GetShaderParameter 1 COMPILE_STATUS, GetShaderInfoLog 1, DeleteShader 1])"
proof -
  have bad: "\<not> compileStatus (ref_browser False) FRAGMENT_SHADER badFragShader"
    by simp
  from createShader_compile_failure [OF bad, of "WebGLRenderingContext leCanvas" init_world]
  show ?thesis by auto
qed

text \<open>
  Claim C10. createShader deletes the shader it created exactly when the compile status
  check fails, and it deletes no other shader. When the check succeeds it returns the
  handle of that shader, and the state it returns is the state in which gl.compileShader
  returned, with the status query added to the trace and nothing else changed: the shader
  is neither deleted nor modified after compilation.
\<close>


theorem createShader_deletes_iff_failure:
  "\<exists>r w'. createShader b (Some g) ty src w = (Inr r, w') \<and>
     (DeleteShader h \<in> set (new_calls w w')) = (h = next_handle w \<and> \<not> compileStatus b ty src) \<and>
     (shaders w' (next_handle w) = None) = (\<not> compileStatus b ty src) \<and>
     (compileStatus b ty src \<longrightarrow>
        r = Some (next_handle w) \<and>
        shaders w' (next_handle w) =
          Some \<lparr>sh_type = ty, sh_source = src, sh_compiled = True,
                sh_log = shaderInfoLog b ty src\<rparr> \<and>
        w' = traced (GetShaderParameter (next_handle w) COMPILE_STATUS)
               (after_compile b ty src w))"
  by (auto simp add: createShader_eq new_calls_def after_compile_def js_bind_apply traced_def
      gl_createShader_def gl_shaderSource_def gl_compileShader_def)

theorem createShader_deletes_iff_failure_witness:
  "compileStatus (ref_browser False) VERTEX_SHADER vertShader \<and>
   (\<exists>w'. createShader (ref_browser False) (Some (WebGLRenderingContext leCanvas))
            VERTEX_SHADER vertShader init_world = (Inr (Some 1), w') \<and>
          DeleteShader 1 \<notin> set (new_calls init_world w') \<and>
          shaders w' 1 \<noteq> None \<and>
          w' = traced (GetShaderParameter 1 COMPILE_STATUS)
                 (after_compile (ref_browser False) VERTEX_SHADER vertShader init_world))"
proof -
  have ok: "compileStatus (ref_browser False) VERTEX_SHADER vertShader"
    by simp
  from createShader_deletes_iff_failure
    [of "ref_browser False" "WebGLRenderingContext leCanvas" VERTEX_SHADER vertShader
        init_world 1]
  show ?thesis using ok by auto
qed

subsection \<open>The program linker\<close>

text \<open>
  Claim C2 as stated fails. On a browser whose binding raises a TypeError for a null
  handle, the fragment source is rejected, createShader returns null for it, and
  createProgram creates the program and attaches the vertex shader, but the attachShader
  call that receives null throws: nothing is attached for the fragment stage and
  linkProgram is never called.
\<close>

theorem null_shader_counterexample:
  "nullHandleThrows (ref_browser True) \<and>
   fst (createShader (ref_browser True) (Some (WebGLRenderingContext leCanvas))
          FRAGMENT_SHADER badFragShader init_world) = Inr None \<and>
   fst (createProgram (ref_browser True) (Some (WebGLRenderingContext leCanvas))
          vertShader badFragShader init_world) = Inl (TypeError ''attachShader'') \<and>
   calls (snd (createProgram (ref_browser True) (Some (WebGLRenderingContext leCanvas))
          vertShader badFragShader init_world)) =
     [CreateShader VERTEX_SHADER, ShaderSource 1 vertShader, CompileShader 1,
      GetShaderParameter 1 COMPILE_STATUS,
      CreateShader FRAGMENT_SHADER, ShaderSource 2 badFragShader, CompileShader 2,
      GetShaderParameter 2 COMPILE_STATUS, GetShaderInfoLog 2, DeleteShader 2,
      CreateProgram, AttachShader 3 (Some 1)] \<and>
   AttachShader 3 None \<notin> set (calls (snd (createProgram (ref_browser True)
          (Some (WebGLRenderingContext leCanvas)) vertShader badFragShader init_world))) \<and>
   LinkProgram 3 \<notin> set (calls (snd (createProgram (ref_browser True)
          (Some (WebGLRenderingContext leCanvas)) vertShader badFragShader init_world)))"
proof -
  let ?b = "ref_browser True" and ?g = "WebGLRenderingContext leCanvas"
  have null: "fst (createShader ?b (Some ?g) FRAGMENT_SHADER badFragShader init_world) = Inr None"
    by (simp add: createShader_eq)
  from createProgram_fragment_rejected_strict [of ?b vertShader badFragShader ?g init_world]
  obtain w1 where
    "createProgram ?b (Some ?g) vertShader badFragShader init_world =
       (Inl (TypeError ''attachShader''), w1)"
    "calls w1 =
       [CreateShader VERTEX_SHADER, ShaderSource 1 vertShader, CompileShader 1,
        GetShaderParameter 1 COMPILE_STATUS,
        CreateShader FRAGMENT_SHADER, ShaderSource 2 badFragShader, CompileShader 2,
        GetShaderParameter 2 COMPILE_STATUS, GetShaderInfoLog 2, DeleteShader 2,
        CreateProgram, AttachShader 3 (Some 1)]"
    by auto
  with null show ?thesis
    by simp
qed

text \<open>
  Claim C2, amended. createProgram has no branch on the results of the two createShader
  calls: whatever they are (null included), it creates a program object and calls
  attachShader with the values as it received them, vertex first. On a context that
  tolerates null handles both calls are made, then it links and queries the link status,
  and the program object exists when it returns. On a context whose binding raises a
  TypeError for a null handle, if one of the two values is null then the attachShader call
  that receives it throws: createProgram ends with that exception, having created the
  program (and attached the vertex shader when it is the fragment one that is null), and it
  does not link.
\<close>

theorem createProgram_no_short_circuit:
  assumes "createShader b (Some g) VERTEX_SHADER vsrc w = (Inr vs, w1)"
      and "createShader b (Some g) FRAGMENT_SHADER fsrc w1 = (Inr fs, w2)"
  shows
    "(\<not> nullHandleThrows b \<longrightarrow>
        (\<exists>r w'. createProgram b (Some g) vsrc fsrc w = (Inr r, w') \<and>
           programs w' (next_handle w2) \<noteq> None \<and>
           new_calls w2 w' =
             [CreateProgram,
              AttachShader (next_handle w2) vs, AttachShader (next_handle w2) fs,
              LinkProgram (next_handle w2),
              GetProgramParameter (next_handle w2) LINK_STATUS] @
             (if r = None then [GetProgramInfoLog (next_handle w2)] else []))) \<and>
     (nullHandleThrows b \<and> (vs = None \<or> fs = None) \<longrightarrow>
        (\<exists>w'. createProgram b (Some g) vsrc fsrc w = (Inl (TypeError ''attachShader''), w') \<and>
           programs w' (next_handle w2) \<noteq> None \<and>
           new_calls w2 w' =
             CreateProgram #
             (case vs of None \<Rightarrow> [] | Some h \<Rightarrow> [AttachShader (next_handle w2) (Some h)])))"
proof (intro conjI impI)
  assume "\<not> nullHandleThrows b"
  then show "\<exists>r w'. createProgram b (Some g) vsrc fsrc w = (Inr r, w') \<and>
           programs w' (next_handle w2) \<noteq> None \<and>
           new_calls w2 w' =
             [CreateProgram,
              AttachShader (next_handle w2) vs, AttachShader (next_handle w2) fs,
              LinkProgram (next_handle w2),
              GetProgramParameter (next_handle w2) LINK_STATUS] @
             (if r = None then [GetProgramInfoLog (next_handle w2)] else [])"
    by (cases vs; cases fs)
       (simp_all add: createProgram_unfold js_bind_apply assms js_return_def console_error_def
          gl_createProgram_def gl_attachShader_apply gl_linkProgram_def gl_getProgramParameter_def
          gl_getProgramInfoLog_def new_calls_def)
next
  assume "nullHandleThrows b \<and> (vs = None \<or> fs = None)"
  then show "\<exists>w'. createProgram b (Some g) vsrc fsrc w = (Inl (TypeError ''attachShader''), w') \<and>
           programs w' (next_handle w2) \<noteq> None \<and>
           new_calls w2 w' =
             CreateProgram #
             (case vs of None \<Rightarrow> [] | Some h \<Rightarrow> [AttachShader (next_handle w2) (Some h)])"
    by (cases vs; cases fs)
       (simp_all add: createProgram_unfold js_bind_apply assms js_throw_def
          gl_createProgram_def gl_attachShader_def new_calls_def)
qed

theorem createProgram_no_short_circuit_witness:
  "(\<exists>w1 w2. createShader (ref_browser False) (Some (WebGLRenderingContext leCanvas))
               VERTEX_SHADER vertShader init_world = (Inr (Some 1), w1) \<and>
            createShader (ref_browser False) (Some (WebGLRenderingContext leCanvas))
               FRAGMENT_SHADER badFragShader w1 = (Inr None, w2) \<and>
            (\<exists>r w'. createProgram (ref_browser False) (Some (WebGLRenderingContext leCanvas))
                       vertShader badFragShader init_world = (Inr r, w') \<and>
                    programs w' 3 \<noteq> None \<and>
                    new_calls w2 w' =
                      [CreateProgram, AttachShader 3 (Some 1), AttachShader 3 None,
                       LinkProgram 3, GetProgramParameter 3 LINK_STATUS] @
                      (if r = None then [GetProgramInfoLog 3] else []))) \<and>
   (\<exists>w1 w2. createShader (ref_browser True) (Some (WebGLRenderingContext leCanvas))
               VERTEX_SHADER vertShader init_world = (Inr (Some 1), w1) \<and>
            createShader (ref_browser True) (Some (WebGLRenderingContext leCanvas))
               FRAGMENT_SHADER badFragShader w1 = (Inr None, w2) \<and>
            (\<exists>w'. createProgram (ref_browser True) (Some (WebGLRenderingContext leCanvas))
                       vertShader badFragShader init_world =
                         (Inl (TypeError ''attachShader''), w') \<and>
                    programs w' 3 \<noteq> None \<and>
                    new_calls w2 w' = [CreateProgram, AttachShader 3 (Some 1)]))"
proof -
  let ?g = "WebGLRenderingContext leCanvas"
  define W1 where "W1 s = snd (createShader (ref_browser s) (Some ?g) VERTEX_SHADER vertShader
    init_world)" for s
  define W2 where "W2 s = snd (createShader (ref_browser s) (Some ?g) FRAGMENT_SHADER
    badFragShader (W1 s))" for s
  have cs1: "createShader (ref_browser s) (Some ?g) VERTEX_SHADER vertShader init_world =
      (Inr (Some 1), W1 s)" for s
    by (simp add: W1_def createShader_eq)
  have nh1: "next_handle (W1 s) = 2" for s
    by (simp add: W1_def createShader_eq)
  have cs2: "createShader (ref_browser s) (Some ?g) FRAGMENT_SHADER badFragShader (W1 s) =
      (Inr None, W2 s)" for s
    by (simp add: W2_def createShader_eq)
  have nh2: "next_handle (W2 s) = 3" for s
    by (simp add: W2_def createShader_eq nh1)
  have tol: "\<not> nullHandleThrows (ref_browser False)"
    by simp
  from createProgram_no_short_circuit [OF cs1 cs2, of False] tol
  have tolerant: "\<exists>r w'. createProgram (ref_browser False) (Some ?g) vertShader badFragShader
        init_world = (Inr r, w') \<and>
      programs w' 3 \<noteq> None \<and>
      new_calls (W2 False) w' =
        [CreateProgram, AttachShader 3 (Some 1), AttachShader 3 None,
         LinkProgram 3, GetProgramParameter 3 LINK_STATUS] @
        (if r = None then [GetProgramInfoLog 3] else [])"
    unfolding nh2 by blast
  from createProgram_no_short_circuit [OF cs1 cs2, of True]
  have strict: "\<exists>w'. createProgram (ref_browser True) (Some ?g) vertShader badFragShader
        init_world = (Inl (TypeError ''attachShader''), w') \<and>
      programs w' 3 \<noteq> None \<and>
      new_calls (W2 True) w' = [CreateProgram, AttachShader 3 (Some 1)]"
    by (simp add: nh2)
  from tolerant strict cs1 cs2 show ?thesis
    by blast
qed

text \<open>
  Claim C4. When createProgram returns, the program object it created still exists, with
  the link status and the diagnostic the browser's linker gave for the attached shaders.
  createProgram returns null exactly when that link status is false, and then it has
  logged the linker's diagnostic (one more console line), has made no call after reading
  the diagnostic, and has left the shaders and the program object as they were: the
  program is not destroyed on link failure.
\<close>


theorem createProgram_link_failure:
  assumes "createShader b (Some g) VERTEX_SHADER vsrc w = (Inr vs, w1)"
      and "createShader b (Some g) FRAGMENT_SHADER fsrc w1 = (Inr fs, w2)"
      and "vs = None \<or> fs = None \<longrightarrow> \<not> nullHandleThrows b"
  shows "\<exists>r w' obj. createProgram b (Some g) vsrc fsrc w = (Inr r, w') \<and>
           programs w' (next_handle w2) = Some obj \<and>
           pr_linked obj = linkStatus b (attached_objs w' obj) \<and>
           pr_log obj = programInfoLog b (attached_objs w' obj) \<and>
           (r = None) = (\<not> pr_linked obj) \<and>
           (\<not> pr_linked obj \<longrightarrow>
              console w' = console w2 @ [pr_log obj] \<and>
              shaders w' = shaders w2 \<and>
              new_calls w2 w' =
                [CreateProgram,
                 AttachShader (next_handle w2) vs, AttachShader (next_handle w2) fs,
                 LinkProgram (next_handle w2),
                 GetProgramParameter (next_handle w2) LINK_STATUS,
                 GetProgramInfoLog (next_handle w2)])"
proof -
  have att: "gl_attachShader b p s v =
      (Inr (), traced (AttachShader p s) (case s of None \<Rightarrow> v | Some h \<Rightarrow> attach p h v))"
    if "s = vs \<or> s = fs" for p s v
    using that assms(3) by (intro gl_attachShader_apply) auto
  show ?thesis
    by (cases vs; cases fs)
       (simp_all add: createProgram_unfold js_bind_apply assms(1,2) js_return_def console_error_def
        gl_createProgram_def att gl_linkProgram_def gl_getProgramParameter_def
        gl_getProgramInfoLog_def new_calls_def attached_objs_def)
qed

theorem createProgram_link_failure_witness:
  "\<exists>w1 w2 r w' obj.
     createShader (ref_browser False) (Some (WebGLRenderingContext leCanvas))
       VERTEX_SHADER vertShader init_world = (Inr (Some 1), w1) \<and>
     createShader (ref_browser False) (Some (WebGLRenderingContext leCanvas))
       FRAGMENT_SHADER badFragShader w1 = (Inr None, w2) \<and>
     createProgram (ref_browser False) (Some (WebGLRenderingContext leCanvas))
       vertShader badFragShader init_world = (Inr r, w') \<and>
     programs w' 3 = Some obj \<and> \<not> pr_linked obj \<and> r = None \<and>
     console w' = console w2 @ [pr_log obj] \<and>
     new_calls w2 w' =
       [CreateProgram, AttachShader 3 (Some 1), AttachShader 3 None, LinkProgram 3,
        GetProgramParameter 3 LINK_STATUS, GetProgramInfoLog 3]"
proof -
  let ?b = "ref_browser False" and ?g = "WebGLRenderingContext leCanvas"
  define W1 where "W1 = snd (createShader ?b (Some ?g) VERTEX_SHADER vertShader init_world)"
  define W2 where "W2 = snd (createShader ?b (Some ?g) FRAGMENT_SHADER badFragShader W1)"
  have cs1: "createShader ?b (Some ?g) VERTEX_SHADER vertShader init_world = (Inr (Some 1), W1)"
    by (simp add: W1_def createShader_eq)
  have nh1: "next_handle W1 = 2"
    by (simp add: W1_def createShader_eq)
  have cs2: "createShader ?b (Some ?g) FRAGMENT_SHADER badFragShader W1 = (Inr None, W2)"
    by (simp add: W2_def createShader_eq)
  have nh2: "next_handle W2 = 3"
    by (simp add: W2_def createShader_eq nh1)
  have tol: "Some 1 = None \<or> (None :: handle option) = None \<longrightarrow> \<not> nullHandleThrows ?b"
    by simp
  have "\<exists>w1. createProgram ?b (Some ?g) vertShader badFragShader init_world = (Inr None, w1)"
    using createProgram_fragment_rejected [of ?b vertShader badFragShader ?g init_world]
    by (auto simp add: links_def)
  with createProgram_link_failure [OF cs1 cs2 tol] cs1 cs2 show ?thesis
    unfolding nh2 by (metis Pair_inject sum.inject(2))
qed

subsection \<open>The vertex data\<close>

text \<open>
  Claim C5. Read two components at a time, the position array is the three points
  (-1,-1), (0,0.5), (1,-1); read four at a time, the colour array is red, green and blue,
  each with alpha 1. The arrays are constants: no statement of the script writes to them,
  and a run that completes uploads exactly these two arrays, once each, positions first.
\<close>


theorem vertex_data:
  "vertices 2 points_arr = [ [- 1, - 1], [0, 0.5], [1, - 1] ] \<and>
   vertices 4 colors_arr = [ [1, 0, 0, 1], [0, 1, 0, 1], [0, 0, 1, 1] ] \<and>
   map (\<lambda>c. c ! 3) (vertices 4 colors_arr) = [1, 1, 1] \<and>
   (main_with b vsrc fsrc w = (Inr (), w') \<longrightarrow>
      uploaded (new_calls w w') = [Float32Array points_arr, Float32Array colors_arr])"
proof -
  have "uploaded (new_calls w w') = [Float32Array points_arr, Float32Array colors_arr]"
    if "main_with b vsrc fsrc w = (Inr (), w')"
  proof -
    from that obtain cs ds where cs: "list_all is_program_call cs"
      and ds: "new_calls w w' = cs @ ds"
        "uploaded ds = [Float32Array points_arr, Float32Array colors_arr]"
      by (rule main_completed_calls) simp
    have "uploaded (xs @ ys) = uploaded ys" if "list_all is_program_call xs" for xs ys
      using that
    proof (induction xs)
      case Nil
      then show ?case by simp
    next
      case (Cons x xs)
      then show ?case by (cases x) simp_all
    qed
    with cs ds show ?thesis by simp
  qed
  then show ?thesis
    by (simp add: vertices_def points_arr_def colors_arr_def)
qed

theorem vertex_data_witness:
  "\<exists>w'. main (ref_browser False) init_world = (Inr (), w') \<and>
     uploaded (new_calls init_world w') =
       [Float32Array [- 1, - 1, 0, 0.5, 1, - 1],
        Float32Array [1, 0, 0, 1, 0, 1, 0, 1, 0, 0, 1, 1]]"
proof -
  obtain w' where run: "main_with (ref_browser False) vertShader fragShader init_world = (Inr (), w')"
    using ref_browser_completes by blast
  from vertex_data [of "ref_browser False" vertShader fragShader init_world w'] run
  show ?thesis
    by (simp add: main_def points_arr_def colors_arr_def)
qed

text \<open>
  Claim C6. The position array has 6 elements and 2 components per vertex, the colour array
  12 elements and 4 per vertex: both hold 3 vertices, with no element left over, and vertex
  \<open>i\<close> of the one (elements \<open>2i\<close>, \<open>2i+1\<close>) goes with vertex \<open>i\<close> of the other (elements
  \<open>4i\<close> to \<open>4i+3\<close>): the first point is red, the second green, the third blue.
\<close>


theorem vertex_counts:
  "length points_arr = 6 \<and> length colors_arr = 12 \<and>
   length points_arr div 2 = 3 \<and> length points_arr mod 2 = 0 \<and>
   length colors_arr div 4 = 3 \<and> length colors_arr mod 4 = 0 \<and>
   length (vertices 2 points_arr) = 3 \<and> length (vertices 4 colors_arr) = 3 \<and>
   zip (vertices 2 points_arr) (vertices 4 colors_arr) =
     map (\<lambda>i. (take 2 (drop (2 * i) points_arr), take 4 (drop (4 * i) colors_arr))) [0, 1, 2] \<and>
   zip (vertices 2 points_arr) (vertices 4 colors_arr) =
     [([- 1, - 1], [1, 0, 0, 1]), ([0, 0.5], [0, 1, 0, 1]), ([1, - 1], [0, 0, 1, 1])]"
  by (simp add: vertices_def points_arr_def colors_arr_def)

subsection \<open>Attribute layout and draw submission\<close>

text \<open>
  Claim C7. In a run that completes, the calls that resolve, describe and enable vertex
  attributes are, in order: the lookup of a_points, its layout with 2 components of type
  FLOAT, not normalized, stride 0, offset 0, the enabling of that slot; then the same for
  a_colors with 4 components. The slot given to the layout and to the enabling is the one
  the lookup returned.
\<close>


theorem attribute_layout:
  assumes "main_with b vsrc fsrc w = (Inr (), w')"
  shows "\<exists>c program.
           document b ''leCanvas'' = Some c \<and>
           fst (createProgram b (Some (WebGLRenderingContext c)) vsrc fsrc w) = Inr program \<and>
           filter is_attrib_call (new_calls w w') =
             [GetAttribLocation program ''a_points'',
              VertexAttribPointer (attrib_slot b w' program ''a_points'') 2 FLOAT False 0 0,
              EnableVertexAttribArray (attrib_slot b w' program ''a_points''),
              GetAttribLocation program ''a_colors'',
              VertexAttribPointer (attrib_slot b w' program ''a_colors'') 4 FLOAT False 0 0,
              EnableVertexAttribArray (attrib_slot b w' program ''a_colors'')]"
proof -
  from assms obtain c program w1 cs where c: "document b ''leCanvas'' = Some c"
    and cp: "createProgram b (Some (WebGLRenderingContext c)) vsrc fsrc w = (Inr program, w1)"
    and cs: "list_all is_program_call cs"
    and slot: "attrib_slot b w' = attrib_slot b w1"
    and new: "filter is_attrib_call (new_calls w w') = filter is_attrib_call cs @
             [GetAttribLocation program ''a_points'',
              VertexAttribPointer (attrib_slot b w1 program ''a_points'') 2 FLOAT False 0 0,
              EnableVertexAttribArray (attrib_slot b w1 program ''a_points''),
              GetAttribLocation program ''a_colors'',
              VertexAttribPointer (attrib_slot b w1 program ''a_colors'') 4 FLOAT False 0 0,
              EnableVertexAttribArray (attrib_slot b w1 program ''a_colors'')]"
    by (rule main_completed_calls) simp
  from c cp new show ?thesis
    by (simp add: program_calls_filter [OF cs] slot)
qed

theorem attribute_layout_witness:
  "\<exists>w'. main (ref_browser False) init_world = (Inr (), w') \<and>
     filter is_attrib_call (new_calls init_world w') =
       [GetAttribLocation (Some 3) ''a_points'',
        VertexAttribPointer (attrib_slot (ref_browser False) w' (Some 3) ''a_points'') 2
          FLOAT False 0 0,
        EnableVertexAttribArray (attrib_slot (ref_browser False) w' (Some 3) ''a_points''),
        GetAttribLocation (Some 3) ''a_colors'',
        VertexAttribPointer (attrib_slot (ref_browser False) w' (Some 3) ''a_colors'') 4
          FLOAT False 0 0,
        EnableVertexAttribArray (attrib_slot (ref_browser False) w' (Some 3) ''a_colors'')]"
proof -
  let ?b = "ref_browser False" and ?g = "WebGLRenderingContext leCanvas"
  obtain w' where run: "main_with ?b vertShader fragShader init_world = (Inr (), w')"
    using ref_browser_completes by blast
  have "fst (createProgram ?b (Some ?g) vertShader fragShader init_world) = Inr (Some 3)"
    by (simp add: createProgram_unfold js_bind_apply createShader_eq js_return_def
      gl_createProgram_def gl_attachShader_def gl_linkProgram_def gl_getProgramParameter_def
      attached_objs_def links_def)
  with attribute_layout [OF run] run show ?thesis
    by (auto simp add: main_def)
qed



subsection \<open>Failures at the top level\<close>

text \<open>
  Claim C1 as stated fails. On a browser that rejects the fragment source and tolerates
  null handles, createProgram returns null and the script goes on to the draw call. On a
  browser that raises a TypeError for null handles, createProgram does not return null:
  it throws at attachShader.
\<close>


theorem malformed_fragment_counterexample:
  "\<not> compileStatus (ref_browser False) FRAGMENT_SHADER badFragShader \<and>
   fst (createProgram (ref_browser False) (Some (WebGLRenderingContext leCanvas))
          vertShader badFragShader init_world) = Inr None \<and>
   filter is_draw (new_calls init_world
       (snd (main_with (ref_browser False) vertShader badFragShader init_world))) =
     [DrawArrays TRIANGLES 0 3] \<and>
   fst (createProgram (ref_browser True) (Some (WebGLRenderingContext leCanvas))
          vertShader badFragShader init_world) = Inl (TypeError ''attachShader'')"
proof -
  have sub_draw: "filter is_draw xs = filter is_draw (filter is_submission xs)" for xs
  proof (induction xs)
    case Nil
    then show ?case by simp
  next
    case (Cons x xs)
    then show ?case by (cases x) simp_all
  qed
  from fragment_rejected_tolerant [of "ref_browser False" leCanvas vertShader badFragShader init_world]
  obtain w1 w' where
    "createProgram (ref_browser False) (Some (WebGLRenderingContext leCanvas))
       vertShader badFragShader init_world = (Inr None, w1)"
    "main_with (ref_browser False) vertShader badFragShader init_world = (Inr (), w')"
    "filter is_submission (new_calls init_world w') =
       [Viewport 0 0 300 150, ClearColor 0 0 0 1,
        Clear COLOR_BUFFER_BIT, UseProgram None, DrawArrays TRIANGLES 0 3]"
    by (auto simp add: links_def)
  moreover
  from fragment_rejected_strict [of "ref_browser True" leCanvas vertShader badFragShader init_world]
  obtain w'' where
    "createProgram (ref_browser True) (Some (WebGLRenderingContext leCanvas))
       vertShader badFragShader init_world = (Inl (TypeError ''attachShader''), w'')"
    by auto
  ultimately show ?thesis
    by (simp add: sub_draw [of "new_calls init_world w'"])
qed

text \<open>
  Claim C1, amended. Let the vertex source compile and the fragment source be rejected.
  On a context that tolerates null handles and reports the link of the program with the
  vertex shader alone as failed, createProgram returns null, and the console receives the
  compiler's diagnostic, the linker's diagnostic and the text "Failed to create program :(";
  the script does not stop, and the draw submission is made, with the null program. On a
  context whose binding raises a TypeError for a null handle, createProgram throws at
  attachShader after the compiler's diagnostic was logged, the script ends with that
  exception, and no draw submission is made.
\<close>


theorem main_fragment_rejected:
  assumes "document b ''leCanvas'' = Some c" and "cv_webgl c"
      and "compileStatus b VERTEX_SHADER vsrc" and "\<not> compileStatus b FRAGMENT_SHADER fsrc"
  shows
    "(\<not> nullHandleThrows b \<and>
      \<not> linkStatus b [\<lparr>sh_type = VERTEX_SHADER, sh_source = vsrc, sh_compiled = True,
                         sh_log = shaderInfoLog b VERTEX_SHADER vsrc\<rparr>] \<longrightarrow>
      (\<exists>w1 w'. createProgram b (Some (WebGLRenderingContext c)) vsrc fsrc w = (Inr None, w1) \<and>
         main_with b vsrc fsrc w = (Inr (), w') \<and>
         console w' = console w @
           [shaderInfoLog b FRAGMENT_SHADER fsrc,
            programInfoLog b [\<lparr>sh_type = VERTEX_SHADER, sh_source = vsrc, sh_compiled = True,
                                sh_log = shaderInfoLog b VERTEX_SHADER vsrc\<rparr>],
            ''Failed to create program :(''] \<and>
         filter is_submission (new_calls w w') =
           [Viewport 0 0 (cv_width c) (cv_height c), ClearColor 0 0 0 1,
            Clear COLOR_BUFFER_BIT, UseProgram None, DrawArrays TRIANGLES 0 3])) \<and>
     (nullHandleThrows b \<longrightarrow>
      (\<exists>w'. createProgram b (Some (WebGLRenderingContext c)) vsrc fsrc w =
               (Inl (TypeError ''attachShader''), w') \<and>
         main_with b vsrc fsrc w = (Inl (TypeError ''attachShader''), w') \<and>
         console w' = console w @ [shaderInfoLog b FRAGMENT_SHADER fsrc] \<and>
         filter is_submission (new_calls w w') = []))"
  using fragment_rejected_tolerant [OF assms, of w] fragment_rejected_strict [OF assms, of w]
  by blast

theorem main_fragment_rejected_witness:
  "(\<exists>w'. main_with (ref_browser False) vertShader badFragShader init_world = (Inr (), w') \<and>
      console w' =
        [''ERROR: syntax error'', ''ERROR: missing shader'', ''Failed to create program :(''] \<and>
      filter is_submission (new_calls init_world w') =
        [Viewport 0 0 300 150, ClearColor 0 0 0 1, Clear COLOR_BUFFER_BIT,
         UseProgram None, DrawArrays TRIANGLES 0 3]) \<and>
   (\<exists>w'. main_with (ref_browser True) vertShader badFragShader init_world =
            (Inl (TypeError ''attachShader''), w') \<and>
      console w' = [''ERROR: syntax error''] \<and>
      filter is_submission (new_calls init_world w') = [])"
proof -
  have hyps: "document (ref_browser s) ''leCanvas'' = Some leCanvas" "cv_webgl leCanvas"
    "compileStatus (ref_browser s) VERTEX_SHADER vertShader"
    "\<not> compileStatus (ref_browser s) FRAGMENT_SHADER badFragShader" for s
    by simp_all
  from main_fragment_rejected [OF hyps, of False init_world]
       main_fragment_rejected [OF hyps, of True init_world]
  show ?thesis
    by (simp add: links_def) blast
qed

text \<open>
  Claim C9 as stated fails. Without the canvas the script logs one line and ends with a
  TypeError at canvas.getContext; with a canvas that gives no WebGL context it logs one
  line and ends with a TypeError at gl.VERTEX_SHADER. In both runs no call is made on a
  context: no shader is created, no buffer is set up, nothing is drawn.
\<close>


theorem null_handle_counterexample:
  "document no_canvas_browser ''leCanvas'' = None \<and>
   fst (main no_canvas_browser init_world) = Inl (TypeError ''getContext'') \<and>
   console (snd (main no_canvas_browser init_world)) = [''Canvas not found :(''] \<and>
   calls (snd (main no_canvas_browser init_world)) = [] \<and>
   fst (main no_webgl_browser init_world) = Inl (TypeError ''VERTEX_SHADER'') \<and>
   console (snd (main no_webgl_browser init_world)) = [''WebGL not supported :(''] \<and>
   calls (snd (main no_webgl_browser init_world)) = []"
  using main_no_canvas [of no_canvas_browser vertShader fragShader init_world]
        main_no_webgl [of no_webgl_browser "leCanvas\<lparr>cv_webgl := False\<rparr>" vertShader fragShader
          init_world]
  by (simp add: main_def)

text \<open>
  Claim C9, amended. When the canvas lookup yields null, the script logs
  "Canvas not found :(" and does not return; the next statement reads getContext of null
  and raises a TypeError, which ends the script. When the context acquisition yields null,
  the script logs "WebGL not supported :(" and does not return; the next statement reads
  VERTEX_SHADER of null and raises a TypeError, which ends the script. In both cases the
  state at the end differs from the initial one by that one console line only.
\<close>


theorem main_null_handle:
  "(document b ''leCanvas'' = None \<longrightarrow>
      main_with b vsrc fsrc w =
        (Inl (TypeError ''getContext''), w\<lparr>console := console w @ [''Canvas not found :('']\<rparr>)) \<and>
   (document b ''leCanvas'' = Some c \<and> \<not> cv_webgl c \<longrightarrow>
      main_with b vsrc fsrc w =
        (Inl (TypeError ''VERTEX_SHADER''),
         w\<lparr>console := console w @ [''WebGL not supported :('']\<rparr>))"
  using main_no_canvas [of b vsrc fsrc w] main_no_webgl [of b c vsrc fsrc w]
  by blast

theorem main_null_handle_witness:
  "document no_canvas_browser ''leCanvas'' = None \<and>
   main no_canvas_browser init_world =
     (Inl (TypeError ''getContext''), init_world\<lparr>console := [''Canvas not found :('']\<rparr>) \<and>
   document no_webgl_browser ''leCanvas'' = Some (leCanvas\<lparr>cv_webgl := False\<rparr>) \<and>
   \<not> cv_webgl (leCanvas\<lparr>cv_webgl := False\<rparr>) \<and>
   main no_webgl_browser init_world =
     (Inl (TypeError ''VERTEX_SHADER''), init_world\<lparr>console := [''WebGL not supported :('']\<rparr>)"
  using main_null_handle [of no_canvas_browser vertShader fragShader init_world leCanvas]
        main_null_handle [of no_webgl_browser vertShader fragShader init_world
          "leCanvas\<lparr>cv_webgl := False\<rparr>"]
  by (simp add: main_def)

end
